theory Spec2Isabelle
  imports Complex_Main "HOL-Library.Word" "HOL-Library.Sublist"
begin

text \<open>
  A shallow embedding of the video object identifier: the detection client with its retry
  loop (\<^verbatim>\<open>services/geminiService.ts\<close>), and the frame extraction, the annotation and
  the frame jobs of the application component. Everything the program leaves to its
  surroundings (the provider, \<^verbatim>\<open>JSON.parse\<close>, the browser's media decoder and canvas)
  is a parameter; promises are modelled by the way they end, and effects by the list of
  calls made.
\<close>

section \<open>JavaScript values used by the program\<close>

subsection \<open>Strings\<close>

text \<open>
  A JavaScript string is a sequence of 16-bit code units. The literals of the source are
  ASCII, so \<open>ascii\<close> turns a HOL string literal into code units.
\<close>

type_synonym code_unit = "16 word"
type_synonym jsstring = "code_unit list"

definition ascii :: "string \<Rightarrow> jsstring" where
  "ascii s = map of_char s"

text \<open>
  \<^verbatim>\<open>String.prototype.trim\<close> removes the WhiteSpace and LineTerminator code points of
  ECMAScript from both ends; all of them are single code units.
\<close>

definition isWhiteSpace :: "code_unit \<Rightarrow> bool" where
  "isWhiteSpace c \<longleftrightarrow>
     c \<in> {0x0009, 0x000A, 0x000B, 0x000C, 0x000D, 0x0020, 0x00A0, 0x1680,
          0x2000, 0x2001, 0x2002, 0x2003, 0x2004, 0x2005, 0x2006, 0x2007,
          0x2008, 0x2009, 0x200A, 0x2028, 0x2029, 0x202F, 0x205F, 0x3000, 0xFEFF}"

definition trim :: "jsstring \<Rightarrow> jsstring" where
  "trim s = rev (dropWhile isWhiteSpace (rev (dropWhile isWhiteSpace s)))"

text \<open>\<^verbatim>\<open>s.includes(m)\<close>: \<open>m\<close> occurs in \<open>s\<close> as a contiguous run of code units.\<close>

definition str_includes :: "jsstring \<Rightarrow> jsstring \<Rightarrow> bool" where
  "str_includes s m = sublist m s"

subsection \<open>Numbers\<close>

text \<open>
  A JavaScript number is a double. Finite doubles are idealised as reals (rounding,
  overflow and the sign of zero are not modelled); \<open>NaN\<close> and the two infinities are
  kept as values of their own, because parsed model output can hold them and a missing
  numeric field behaves as \<open>NaN\<close> in arithmetic.
\<close>

datatype jsnum = NaN | NegInf | Fin real | PosInf

definition num :: "nat \<Rightarrow> jsnum" where
  "num n = Fin (real n)"

text \<open>\<^verbatim>\<open>a * b\<close>\<close>

fun jmul :: "jsnum \<Rightarrow> jsnum \<Rightarrow> jsnum" where
  "jmul NaN b = NaN"
| "jmul a NaN = NaN"
| "jmul (Fin a) (Fin b) = Fin (a * b)"
| "jmul (Fin a) PosInf = (if a = 0 then NaN else if 0 < a then PosInf else NegInf)"
| "jmul (Fin a) NegInf = (if a = 0 then NaN else if 0 < a then NegInf else PosInf)"
| "jmul PosInf (Fin b) = (if b = 0 then NaN else if 0 < b then PosInf else NegInf)"
| "jmul NegInf (Fin b) = (if b = 0 then NaN else if 0 < b then NegInf else PosInf)"
| "jmul PosInf PosInf = PosInf"
| "jmul PosInf NegInf = NegInf"
| "jmul NegInf PosInf = NegInf"
| "jmul NegInf NegInf = PosInf"

text \<open>\<^verbatim>\<open>a - b\<close>\<close>

fun jsub :: "jsnum \<Rightarrow> jsnum \<Rightarrow> jsnum" where
  "jsub NaN b = NaN"
| "jsub a NaN = NaN"
| "jsub (Fin a) (Fin b) = Fin (a - b)"
| "jsub (Fin a) PosInf = NegInf"
| "jsub (Fin a) NegInf = PosInf"
| "jsub PosInf PosInf = NaN"
| "jsub PosInf b = PosInf"
| "jsub NegInf NegInf = NaN"
| "jsub NegInf b = NegInf"

text \<open>\<^verbatim>\<open>a > b\<close> and \<^verbatim>\<open>a >= b\<close>: false as soon as one side is \<open>NaN\<close>.\<close>

fun jgt :: "jsnum \<Rightarrow> jsnum \<Rightarrow> bool" where
  "jgt NaN b = False"
| "jgt a NaN = False"
| "jgt (Fin a) (Fin b) = (b < a)"
| "jgt a NegInf = (a \<noteq> NegInf)"
| "jgt PosInf b = (b \<noteq> PosInf)"
| "jgt a b = False"

fun jge :: "jsnum \<Rightarrow> jsnum \<Rightarrow> bool" where
  "jge NaN b = False"
| "jge a NaN = False"
| "jge a b = (a = b \<or> jgt a b)"

text \<open>\<^verbatim>\<open>Math.max(a, b)\<close> and \<^verbatim>\<open>Math.min(a, b)\<close>: \<open>NaN\<close> if one argument is.\<close>

fun Math_max :: "jsnum \<Rightarrow> jsnum \<Rightarrow> jsnum" where
  "Math_max NaN b = NaN"
| "Math_max a NaN = NaN"
| "Math_max a b = (if jgt a b then a else b)"

fun Math_min :: "jsnum \<Rightarrow> jsnum \<Rightarrow> jsnum" where
  "Math_min NaN b = NaN"
| "Math_min a NaN = NaN"
| "Math_min a b = (if jgt a b then b else a)"

text \<open>\<^verbatim>\<open>Math.round\<close> on a finite value: the nearest integer, ties upwards.\<close>

definition Math_round :: "real \<Rightarrow> real" where
  "Math_round x = of_int \<lfloor>x + 1 / 2\<rfloor>"

section \<open>The detection client (services/geminiService.ts)\<close>

text \<open>
  A thrown value: whether it is an instance of \<^verbatim>\<open>Error\<close> (the caller tests
  \<^verbatim>\<open>err instanceof Error\<close>), and its \<open>message\<close>, which may be missing (the source reads it
  with \<^verbatim>\<open>error.message?.includes\<close>). \<open>Error m\<close> is \<^verbatim>\<open>new Error(m)\<close>, and stands for the
  engine's own errors (SyntaxError, TypeError) as well.
\<close>

datatype thrown = Thrown (instanceofError: bool) (message: "jsstring option")

definition Error :: "string \<Rightarrow> thrown" where
  "Error m = Thrown True (Some (ascii m))"

record 'o IdentifyResult =
  objects :: "'o list"
  rawJson :: jsstring

text \<open>
  The world outside the function. \<open>generateContent i\<close> is what the provider does on the
  call made in loop iteration \<open>i\<close> (the request is the same in every iteration): it
  rejects with an error, or fulfils with a response whose \<open>text\<close> is a string, or fulfils
  with a response that carries no text (\<^verbatim>\<open>response.text\<close> is \<^verbatim>\<open>undefined\<close>).
  \<open>JSON_parse\<close> is the engine's \<^verbatim>\<open>JSON.parse\<close>: it throws a SyntaxError with an
  engine-chosen message or returns the parsed array, which the source casts to
  \<^verbatim>\<open>VideoObject[]\<close> unchecked. \<open>'o\<close> is the type of the array's elements.
  \<open>trimOfUndefined\<close> is the TypeError the engine throws, with a message of its choice,
  when \<^verbatim>\<open>trim\<close> is read from \<^verbatim>\<open>undefined\<close>.
\<close>

datatype 'r settled = Rejects thrown | Fulfils 'r | FulfilsWithoutText

record 'o world =
  API_KEY :: "jsstring option"
  fileToBase64 :: "thrown + jsstring"
  generateContent :: "nat \<Rightarrow> jsstring settled"
  JSON_parse :: "jsstring \<Rightarrow> thrown + 'o list"
  trimOfUndefined :: thrown

text \<open>What the function does to the outside, in order.\<close>

datatype effect = CallGenerateContent nat | SetTimeout nat

definition maxRetries :: nat where
  "maxRetries = 3"

text \<open>
  The body of the \<^verbatim>\<open>try\<close> block: \<open>Inl\<close> is what lands in \<^verbatim>\<open>catch\<close>, be it the
  rejection of the call, the TypeError of \<^verbatim>\<open>response.text.trim()\<close> on a response without
  text, or the SyntaxError of \<^verbatim>\<open>JSON.parse\<close>.
\<close>

definition tryBody :: "'o world \<Rightarrow> nat \<Rightarrow> thrown + 'o IdentifyResult" where
  "tryBody w i =
     (case generateContent w i of
        Rejects e \<Rightarrow> Inl e
      | Fulfils response_text \<Rightarrow>
          (let text = trim response_text in
           if text = [] then Inr \<lparr>objects = [], rawJson = ascii ''[]''\<rparr>
           else (case JSON_parse w text of
                   Inl e \<Rightarrow> Inl e
                 | Inr objs \<Rightarrow> Inr \<lparr>objects = objs, rawJson = text\<rparr>))
      | FulfilsWithoutText \<Rightarrow> Inl (trimOfUndefined w))"

definition isServiceUnavailable :: "thrown \<Rightarrow> bool" where
  "isServiceUnavailable e =
     (case message e of
        None \<Rightarrow> False
      | Some m \<Rightarrow> str_includes m (ascii ''503'') \<or> str_includes m (ascii ''UNAVAILABLE'')
                  \<or> str_includes m (ascii ''overloaded''))"

definition failed_message :: string where
  "failed_message = ''Failed to identify objects in the video. The model may have returned an error or invalid data after multiple retries.''"

definition exhausted_message :: string where
  "exhausted_message = ''Exhausted all retries to the Gemini API.''"

text \<open>
  The \<^verbatim>\<open>for\<close> loop, from iteration \<open>i\<close> with the current \<open>delay\<close> (milliseconds) and
  the effects so far. It returns the function's outcome and all effects.
\<close>

function retryLoop ::
  "'o world \<Rightarrow> nat \<Rightarrow> nat \<Rightarrow> effect list \<Rightarrow> (thrown + 'o IdentifyResult) \<times> effect list"
where
  "retryLoop w i delay effs =
     (if i < maxRetries then
        (case tryBody w i of
           Inr result \<Rightarrow> (Inr result, effs @ [CallGenerateContent i])
         | Inl error \<Rightarrow>
             if isServiceUnavailable error \<and> i < maxRetries - 1
             then retryLoop w (i + 1) (delay * 2)
                    (effs @ [CallGenerateContent i, SetTimeout delay])
             else (Inl (Error failed_message), effs @ [CallGenerateContent i]))
      else (Inl (Error exhausted_message), effs))"
  by pat_completeness auto
termination
  by (relation "measure (\<lambda>(w, i, delay, effs). maxRetries - i)") auto

text \<open>
  \<^verbatim>\<open>USE_MOCK_DATA\<close> is the constant \<^verbatim>\<open>false\<close>, so the mock branch is dead. A missing
  or empty key throws before anything else; a failed file read rejects as it is.
\<close>

definition identifyObjectsInVideo ::
  "'o world \<Rightarrow> (thrown + 'o IdentifyResult) \<times> effect list" where
  "identifyObjectsInVideo w =
     (if API_KEY w = None \<or> API_KEY w = Some [] then
        (Inl (Error ''API_KEY environment variable is not set.''), [])
      else (case fileToBase64 w of
              Inl e \<Rightarrow> (Inl e, [])
            | Inr base64Video \<Rightarrow> retryLoop w 0 1000 []))"

text \<open>The declared shape of one element of the model's array.\<close>

record BoundingBox =
  x_min :: jsnum
  y_min :: jsnum
  x_max :: jsnum
  y_max :: jsnum

record VideoObject =
  name :: jsstring
  description :: jsstring
  timestamp :: jsnum
  boundingBox :: BoundingBox
  price :: jsstring

section \<open>Frame extraction and annotation (App.tsx)\<close>

subsection \<open>The browser\<close>

text \<open>
  A decoded picture (its size and the RGBA value of each pixel), and a canvas as its size
  and the drawing calls made on it so far. What the calls paint and how the canvas is
  encoded is the browser's business.
\<close>

record Image =
  width :: nat
  height :: nat
  pixels :: "nat \<Rightarrow> nat \<Rightarrow> 32 word"

record StrokeStyle =
  strokeStyle :: string
  lineWidth :: real
  shadowColor :: string
  shadowBlur :: real

datatype draw_op =
  DrawImage Image
| StrokeRect jsnum jsnum jsnum jsnum StrokeStyle

record Canvas =
  canvas_width :: nat
  canvas_height :: nat
  drawn :: "draw_op list"

type_synonym File = "8 word list"

record VideoMeta =
  duration :: jsnum
  videoWidth :: nat
  videoHeight :: nat

text \<open>
  The browser as the two functions see it:
  \<^item> \<open>getContext2d\<close>: \<^verbatim>\<open>canvas.getContext('2d')\<close> is not null;
  \<^item> \<open>loadMetadata f\<close>: after \<^verbatim>\<open>video.src\<close> is set, either the \<^verbatim>\<open>error\<close> event
    (with the media error's message, if any) or \<^verbatim>\<open>loadedmetadata\<close>;
  \<^item> \<open>seek f t\<close>: after \<^verbatim>\<open>currentTime\<close> is set to the finite value \<open>t\<close>, either
    \<^verbatim>\<open>error\<close> or \<^verbatim>\<open>seeked\<close> with the frame then shown;
  \<^item> \<open>loadImage url\<close>: \<^verbatim>\<open>onload\<close> with the decoded picture, or \<^verbatim>\<open>onerror\<close>;
  \<^item> \<open>toDataURL canvas type quality\<close>: the encoder.
\<close>

record browser =
  getContext2d :: bool
  loadMetadata :: "File \<Rightarrow> jsstring option + VideoMeta"
  seek :: "File \<Rightarrow> real \<Rightarrow> jsstring option + Image"
  loadImage :: "jsstring \<Rightarrow> Image option"
  toDataURL :: "Canvas \<Rightarrow> string \<Rightarrow> real option \<Rightarrow> jsstring"

text \<open>
  How a promise ends: resolved, rejected (with an \<^verbatim>\<open>Error\<close> or with a bare string),
  or never settled.
\<close>

datatype reason = ErrorObject jsstring | StringValue jsstring

datatype 'a promise = Resolved 'a | Rejected reason | Pending

subsection \<open>extractFrameFromVideo\<close>

text \<open>The value assigned to \<^verbatim>\<open>video.currentTime\<close> in \<^verbatim>\<open>onLoadedMetadata\<close>.\<close>

definition seekTime :: "jsnum \<Rightarrow> jsnum \<Rightarrow> jsnum" where
  "seekTime timeInSeconds video_duration =
     Math_min (Math_max (Fin 0) timeInSeconds) video_duration"

definition onError :: "jsstring option \<Rightarrow> 'a promise" where
  "onError errorMessage =
     Rejected (ErrorObject (ascii ''Video error during frame extraction: '' @
       (case errorMessage of None \<Rightarrow> ascii ''undefined'' | Some m \<Rightarrow> m)))"

definition onSeeked :: "browser \<Rightarrow> VideoMeta \<Rightarrow> Image \<Rightarrow> jsstring promise" where
  "onSeeked br video frame =
     (let canvas = \<lparr>canvas_width = videoWidth video, canvas_height = videoHeight video,
                     drawn = [DrawImage frame]\<rparr>
      in Resolved (toDataURL br canvas ''image/jpeg'' (Some (9 / 10))))"

text \<open>
  Assigning a value that is not finite to \<^verbatim>\<open>currentTime\<close> throws a TypeError inside
  the listener; neither \<^verbatim>\<open>seeked\<close> nor \<^verbatim>\<open>error\<close> follows, and the promise is never
  settled.
\<close>

definition extractFrameFromVideo :: "browser \<Rightarrow> File \<Rightarrow> jsnum \<Rightarrow> jsstring promise" where
  "extractFrameFromVideo br videoFile timeInSeconds =
     (if \<not> getContext2d br then Rejected (ErrorObject (ascii ''Could not get canvas context.''))
      else (case loadMetadata br videoFile of
              Inl errorMessage \<Rightarrow> onError errorMessage
            | Inr video \<Rightarrow>
                (case seekTime timeInSeconds (duration video) of
                   Fin t \<Rightarrow> (case seek br videoFile t of
                               Inl errorMessage \<Rightarrow> onError errorMessage
                             | Inr frame \<Rightarrow> onSeeked br video frame)
                 | _ \<Rightarrow> Pending)))"

subsection \<open>drawBoundingBoxOnImage\<close>

text \<open>The four clamped pixel coordinates \<open>(x1, y1, x2, y2)\<close>.\<close>

definition pixelBox :: "Image \<Rightarrow> BoundingBox \<Rightarrow> jsnum \<times> jsnum \<times> jsnum \<times> jsnum" where
  "pixelBox img box =
     (let x1 = Math_max (Fin 0) (jmul (x_min box) (num (width img)));
          y1 = Math_max (Fin 0) (jmul (y_min box) (num (height img)));
          x2 = Math_min (num (width img)) (jmul (x_max box) (num (width img)));
          y2 = Math_min (num (height img)) (jmul (y_max box) (num (height img)))
      in (x1, y1, x2, y2))"

definition lineWidthFor :: "Image \<Rightarrow> real" where
  "lineWidthFor img = max 2 (Math_round (real (min (width img) (height img)) / 250))"

text \<open>The canvas when \<^verbatim>\<open>toDataURL\<close> is called on it.\<close>

definition annotated :: "Image \<Rightarrow> BoundingBox \<Rightarrow> Canvas" where
  "annotated img box =
     (let canvas = \<lparr>canvas_width = width img, canvas_height = height img,
                     drawn = [DrawImage img]\<rparr>;
          lw = lineWidthFor img;
          (x1, y1, x2, y2) = pixelBox img box;
          width = jsub x2 x1;
          height = jsub y2 y1
      in if jgt width (Fin 0) \<and> jgt height (Fin 0)
         then canvas\<lparr>drawn := drawn canvas @
                [StrokeRect x1 y1 width height
                   \<lparr>strokeStyle = ''yellow'', lineWidth = lw,
                    shadowColor = ''rgba(0, 0, 0, 0.8)'', shadowBlur = lw * 2\<rparr>]\<rparr>
         else canvas)"

definition drawBoundingBoxOnImage :: "browser \<Rightarrow> jsstring \<Rightarrow> BoundingBox \<Rightarrow> jsstring promise" where
  "drawBoundingBoxOnImage br imageUrl box =
     (case loadImage br imageUrl of
        None \<Rightarrow> Rejected (ErrorObject (ascii ''Failed to load image for drawing bounding box.''))
      | Some img \<Rightarrow>
          if \<not> getContext2d br then Rejected (StringValue (ascii ''Could not get canvas context''))
          else Resolved (toDataURL br (annotated img box) ''image/jpeg'' None))"

section \<open>The application state (App.tsx)\<close>

record IdentifiedObject =
  name :: jsstring
  imageUrl :: "jsstring option"
  price :: jsstring
  timestamp :: jsnum

record AppState =
  identifiedObjects :: "IdentifiedObject list"
  rawJsonOutput :: "jsstring option"
  isLoading :: bool
  error :: "jsstring option"

text \<open>
  The function passed to \<^verbatim>\<open>setIdentifiedObjects\<close> when a frame job is done.
  \<^verbatim>\<open>newObjects[index]\<close> is truthy exactly when the list has that index.
\<close>

definition updater ::
  "nat \<Rightarrow> VideoObject \<Rightarrow> jsstring \<Rightarrow> IdentifiedObject list \<Rightarrow> IdentifiedObject list" where
  "updater index obj frameWithBox prev =
     (let newObjects = prev in
      if index < length newObjects \<and>
         IdentifiedObject.name (newObjects ! index) = VideoObject.name obj
      then newObjects[index := (newObjects ! index)\<lparr>imageUrl := Some frameWithBox\<rparr>]
      else newObjects)"

text \<open>
  The body of the \<^verbatim>\<open>try\<close> block of one frame job, up to the value handed to the
  updater.
\<close>

definition frameJob :: "browser \<Rightarrow> File \<Rightarrow> VideoObject \<Rightarrow> jsstring promise" where
  "frameJob br videoFile obj =
     (case extractFrameFromVideo br videoFile (VideoObject.timestamp obj) of
        Resolved rawFrame \<Rightarrow> drawBoundingBoxOnImage br rawFrame (boundingBox obj)
      | Rejected e \<Rightarrow> Rejected e
      | Pending \<Rightarrow> Pending)"

text \<open>
  One frame job running to its end: a resolved job applies the updater to the state of
  that moment; a rejected one is caught and logged; one that never settles does nothing.
\<close>

definition completeJob :: "browser \<Rightarrow> File \<Rightarrow> nat \<times> VideoObject \<Rightarrow> AppState \<Rightarrow> AppState" where
  "completeJob br videoFile job st =
     (case frameJob br videoFile (snd job) of
        Resolved frameWithBox \<Rightarrow>
          st\<lparr>identifiedObjects :=
               updater (fst job) (snd job) frameWithBox (identifiedObjects st)\<rparr>
      | Rejected e \<Rightarrow> st
      | Pending \<Rightarrow> st)"

definition completeJobs ::
  "browser \<Rightarrow> File \<Rightarrow> (nat \<times> VideoObject) list \<Rightarrow> AppState \<Rightarrow> AppState" where
  "completeJobs br videoFile jobs st = fold (completeJob br videoFile) jobs st"

definition initialObject :: "VideoObject \<Rightarrow> IdentifiedObject" where
  "initialObject obj =
     \<lparr>name = VideoObject.name obj, imageUrl = None, price = VideoObject.price obj,
      timestamp = VideoObject.timestamp obj\<rparr>"

text \<open>
  \<^verbatim>\<open>handleIdentifyClick\<close> from the click to the end of its \<^verbatim>\<open>finally\<close> block: the
  state it leaves and the frame jobs it has started (index and object), none of which it
  awaits. \<open>w\<close> is the world of this run's detection call. In \<^verbatim>\<open>catch\<close>, the message
  shown is that of the thrown value if it is an \<^verbatim>\<open>Error\<close>, and a fixed text otherwise.
\<close>

definition handleIdentifyClick ::
  "VideoObject world \<Rightarrow> File option \<Rightarrow> jsstring \<Rightarrow> AppState \<Rightarrow> AppState \<times> (nat \<times> VideoObject) list"
where
  "handleIdentifyClick w videoFile query st =
     (if videoFile = None then
        (st\<lparr>error := Some (ascii ''Please upload a video file first.'')\<rparr>, [])
      else if trim query = [] then
        (st\<lparr>error := Some (ascii ''Please specify what objects to identify.'')\<rparr>, [])
      else
        (let st1 = st\<lparr>isLoading := True, error := None, identifiedObjects := [],
                       rawJsonOutput := None\<rparr>
         in case fst (identifyObjectsInVideo w) of
              Inl err \<Rightarrow>
                (st1\<lparr>error := (if instanceofError err then message err
                                 else Some (ascii ''An unknown error occurred during object identification.'')),
                      isLoading := False\<rparr>, [])
            | Inr result \<Rightarrow>
                (let objectsWithData = objects result;
                     st2 = st1\<lparr>rawJsonOutput := Some (rawJson result)\<rparr>
                 in if length objectsWithData = 0 then
                      (st2\<lparr>identifiedObjects := [],
                           error := Some (ascii ''No matching objects were found in the video.''),
                           isLoading := False\<rparr>, [])
                    else
                      (st2\<lparr>identifiedObjects := map initialObject objectsWithData,
                           isLoading := False\<rparr>,
                       zip [0..<length objectsWithData] objectsWithData))))"

section \<open>Vocabulary for the properties\<close>

text \<open>
  A transient failure of the detection call: the call of iteration \<open>i\<close> rejects with an
  error that the source's test classifies as service-unavailable.
\<close>

definition transientFailure :: "'o world \<Rightarrow> nat \<Rightarrow> bool" where
  "transientFailure w i =
     (case generateContent w i of
        Rejects e \<Rightarrow> isServiceUnavailable e
      | Fulfils t \<Rightarrow> False
      | FulfilsWithoutText \<Rightarrow> False)"

text \<open>The key is set and the video file can be read, so the loop is reached.\<close>

definition configured :: "'o world \<Rightarrow> bool" where
  "configured w \<longleftrightarrow>
     (case API_KEY w of None \<Rightarrow> False | Some k \<Rightarrow> k \<noteq> []) \<and> \<not> isl (fileToBase64 w)"

text \<open>
  What \<open>n\<close> retried iterations do: a call, then a wait of 1000 ms doubled each time.
\<close>

definition retries :: "nat \<Rightarrow> effect list" where
  "retries n = concat (map (\<lambda>j. [CallGenerateContent j, SetTimeout (1000 * 2 ^ j)]) [0..<n])"

text \<open>
  The canvas that holds the picture and nothing else, and the style the source sets before
  \<^verbatim>\<open>strokeRect\<close>.
\<close>

definition undrawn :: "Image \<Rightarrow> Canvas" where
  "undrawn img = \<lparr>canvas_width = width img, canvas_height = height img, drawn = [DrawImage img]\<rparr>"

definition boxStyle :: "Image \<Rightarrow> StrokeStyle" where
  "boxStyle img = \<lparr>strokeStyle = ''yellow'', lineWidth = lineWidthFor img,
                   shadowColor = ''rgba(0, 0, 0, 0.8)'', shadowBlur = lineWidthFor img * 2\<rparr>"


text \<open>
  The picture a frame job hands to its updater, if it gets that far, and the effect of one
  finished job on the list alone.
\<close>

definition settledImage :: "browser \<Rightarrow> File \<Rightarrow> VideoObject \<Rightarrow> jsstring option" where
  "settledImage br videoFile obj =
     (case frameJob br videoFile obj of Resolved frameWithBox \<Rightarrow> Some frameWithBox
      | Rejected e \<Rightarrow> None | Pending \<Rightarrow> None)"

definition applyJob :: "browser \<Rightarrow> File \<Rightarrow> nat \<times> VideoObject \<Rightarrow> IdentifiedObject list \<Rightarrow> IdentifiedObject list" where
  "applyJob br videoFile job prev =
     (case settledImage br videoFile (snd job) of
        Some frameWithBox \<Rightarrow> updater (fst job) (snd job) frameWithBox prev
      | None \<Rightarrow> prev)"

section \<open>Sample inputs\<close>

text \<open>
  The objects are entries of the source's mock data (the first and the last, and the first
  again as a later run might report it), with JSON texts of them. \<open>toy_parse\<close> and
  \<open>run_parse\<close> agree with \<^verbatim>\<open>JSON.parse\<close> on the texts the samples use, and
  \<open>v8_trimOfUndefined\<close> is the TypeError of one engine.
\<close>

definition mock_glock :: VideoObject where
  "mock_glock =
     \<lparr>VideoObject.name = ascii ''Mock Glock 17'',
      description = ascii ''A standard issue mock handgun.'',
      VideoObject.timestamp = Fin (5 / 2),
      boundingBox = \<lparr>x_min = Fin (1 / 4), y_min = Fin (2 / 5), x_max = Fin (9 / 20), y_max = Fin (3 / 5)\<rparr>,
      VideoObject.price = ascii ''$500 - $600''\<rparr>"

definition mock_json :: jsstring where
  "mock_json = ascii ''[{\"name\":\"Mock Glock 17\",\"description\":\"A standard issue mock handgun.\",\"timestamp\":2.5,\"boundingBox\":{\"x_min\":0.25,\"y_min\":0.4,\"x_max\":0.45,\"y_max\":0.6},\"price\":\"$500 - $600\"}]''"

definition mock_late :: VideoObject where
  "mock_late =
     \<lparr>VideoObject.name = ascii ''Mock Object'',
      description = ascii ''A generic mock item based on your query.'',
      VideoObject.timestamp = Fin (56 / 5),
      boundingBox = \<lparr>x_min = Fin (3 / 5), y_min = Fin (1 / 10), x_max = Fin (4 / 5), y_max = Fin (3 / 10)\<rparr>,
      VideoObject.price = ascii ''$100 - $200''\<rparr>"

definition two_json :: jsstring where
  "two_json = ascii ''[{\"name\":\"Mock Glock 17\",\"description\":\"A standard issue mock handgun.\",\"timestamp\":2.5,\"boundingBox\":{\"x_min\":0.25,\"y_min\":0.4,\"x_max\":0.45,\"y_max\":0.6},\"price\":\"$500 - $600\"},{\"name\":\"Mock Object\",\"description\":\"A generic mock item based on your query.\",\"timestamp\":11.2,\"boundingBox\":{\"x_min\":0.6,\"y_min\":0.1,\"x_max\":0.8,\"y_max\":0.3},\"price\":\"$100 - $200\"}]''"

definition second_glock :: VideoObject where
  "second_glock =
     \<lparr>VideoObject.name = ascii ''Mock Glock 17'',
      description = ascii ''The same handgun, seen later.'',
      VideoObject.timestamp = Fin 7,
      boundingBox = \<lparr>x_min = Fin (1 / 2), y_min = Fin (1 / 2), x_max = Fin (7 / 10), y_max = Fin (4 / 5)\<rparr>,
      VideoObject.price = ascii ''$450 - $550''\<rparr>"

definition second_json :: jsstring where
  "second_json = ascii ''[{\"name\":\"Mock Glock 17\",\"description\":\"The same handgun, seen later.\",\"timestamp\":7,\"boundingBox\":{\"x_min\":0.5,\"y_min\":0.5,\"x_max\":0.7,\"y_max\":0.8},\"price\":\"$450 - $550\"}]''"

definition v8_trimOfUndefined :: thrown where
  "v8_trimOfUndefined = Error ''Cannot read properties of undefined (reading 'trim')''"

definition toy_parse :: "jsstring \<Rightarrow> thrown + VideoObject list" where
  "toy_parse s =
     (if s = ascii ''[]'' then Inr []
      else if s = mock_json then Inr [mock_glock]
      else Inl (Error ''Unexpected token o in JSON at position 1''))"

definition run_parse :: "jsstring \<Rightarrow> thrown + VideoObject list" where
  "run_parse s =
     (if s = mock_json then Inr [mock_glock]
      else if s = two_json then Inr [mock_glock, mock_late]
      else if s = second_json then Inr [second_glock]
      else Inl (Error ''Unexpected end of JSON input''))"

text \<open>
  Worlds: a provider that is always overloaded; one that is overloaded once and then
  answers with something that is not JSON, or with the empty array between a space and a
  line feed; one whose answer is a space, a tab and a line feed; one whose answer carries no
  text; one whose answer is the word \<^verbatim>\<open>overloaded\<close>, which the engine refuses with a
  message that quotes it; one whose answer ends in a line feed; and one that answers a
  given text at once.
\<close>

definition overloaded_world :: "VideoObject world" where
  "overloaded_world =
     \<lparr>API_KEY = Some (ascii ''key''), fileToBase64 = Inr (ascii ''AAAA''),
      generateContent = (\<lambda>i. Rejects (Error ''503 Service Unavailable'')),
      JSON_parse = toy_parse,
      trimOfUndefined = v8_trimOfUndefined\<rparr>"


definition padded_array_world :: "VideoObject world" where
  "padded_array_world =
     \<lparr>API_KEY = Some (ascii ''key''), fileToBase64 = Inr (ascii ''AAAA''),
      generateContent = (\<lambda>i. if i = 0 then Rejects (Error ''The model is overloaded.'')
                              else Fulfils ([0x0020] @ ascii ''[]'' @ [0x000A])),
      JSON_parse = toy_parse,
      trimOfUndefined = v8_trimOfUndefined\<rparr>"

definition blank_text_world :: "VideoObject world" where
  "blank_text_world =
     \<lparr>API_KEY = Some (ascii ''key''), fileToBase64 = Inr (ascii ''AAAA''),
      generateContent = (\<lambda>i. Fulfils [0x0020, 0x0009, 0x000A]),
      JSON_parse = toy_parse,
      trimOfUndefined = v8_trimOfUndefined\<rparr>"

definition no_text_world :: "VideoObject world" where
  "no_text_world =
     \<lparr>API_KEY = Some (ascii ''key''), fileToBase64 = Inr (ascii ''AAAA''),
      generateContent = (\<lambda>i. FulfilsWithoutText),
      JSON_parse = toy_parse,
      trimOfUndefined = v8_trimOfUndefined\<rparr>"


definition trailing_newline_world :: "VideoObject world" where
  "trailing_newline_world =
     \<lparr>API_KEY = Some (ascii ''key''), fileToBase64 = Inr (ascii ''AAAA''),
      generateContent = (\<lambda>i. Fulfils (mock_json @ [0x0A])),
      JSON_parse = toy_parse,
      trimOfUndefined = v8_trimOfUndefined\<rparr>"

definition answering :: "jsstring \<Rightarrow> VideoObject world" where
  "answering response_text =
     \<lparr>API_KEY = Some (ascii ''key''), fileToBase64 = Inr (ascii ''AAAA''),
      generateContent = (\<lambda>i. Fulfils response_text), JSON_parse = run_parse,
      trimOfUndefined = v8_trimOfUndefined\<rparr>"

text \<open>
  A sample browser. Its clips are twelve seconds long, white for the first five seconds and
  black afterwards; \<open>damaged_video\<close> cannot be decoded past the tenth second. Its encoder
  writes the type, whether a quality was passed, whether anything was drawn over the
  picture, and whether the picture is the white one; its decoder reads the last of these
  back. \<open>stream_browser\<close> is the same browser reporting an unbounded duration.
\<close>

definition light_frame :: Image where
  "light_frame = \<lparr>width = 400, height = 400, pixels = (\<lambda>x y. 0xFFFFFFFF)\<rparr>"

definition dark_frame :: Image where
  "dark_frame = \<lparr>width = 400, height = 400, pixels = (\<lambda>x y. 0xFF000000)\<rparr>"

definition good_video :: File where
  "good_video = [1, 2, 3]"

definition damaged_video :: File where
  "damaged_video = [0]"


definition sample_toDataURL :: "Canvas \<Rightarrow> string \<Rightarrow> real option \<Rightarrow> jsstring" where
  "sample_toDataURL canvas type quality =
     ascii ''data:'' @ ascii type @ ascii '';base64,'' @
     ascii (case quality of None \<Rightarrow> ''default'' | Some q \<Rightarrow> ''chosen'') @
     ascii (if length (drawn canvas) = 1 then ''0'' else ''1'') @
     ascii (case drawn canvas of
              DrawImage img # ops \<Rightarrow> if pixels img 0 0 = 0xFFFFFFFF then ''w'' else ''k''
            | _ \<Rightarrow> [])"

definition sample_browser :: browser where
  "sample_browser =
     \<lparr>getContext2d = True,
      loadMetadata = (\<lambda>f. Inr \<lparr>duration = Fin 12, videoWidth = 400, videoHeight = 400\<rparr>),
      seek = (\<lambda>f t. if f = damaged_video \<and> 10 < t then Inl (Some (ascii ''decode error''))
                     else if t < 5 then Inr light_frame else Inr dark_frame),
      loadImage = (\<lambda>url. if url \<noteq> [] \<and> last url = of_char CHR ''k'' then Some dark_frame
                        else Some light_frame),
      toDataURL = sample_toDataURL\<rparr>"


text \<open>
  A browser with a lossy encoder, in miniature. Its pictures are one shade of gray; the
  encoder rounds the shade down to a multiple of a step that is finer at higher quality
  (8 at the default quality, 10 below 0.92) and writes it after the type and a mark for
  drawing done over the picture; the decoder reads the shade back. \<open>frame_url\<close> is what
  it makes of a frame of shade 255 at quality 0.9, \<open>returned_url\<close> what it makes of that
  frame's picture at the default quality.
\<close>

definition gray :: "nat \<Rightarrow> Image" where
  "gray v = \<lparr>width = 400, height = 400, pixels = (\<lambda>x y. of_nat v)\<rparr>"

definition jpeg_step :: "real option \<Rightarrow> nat" where
  "jpeg_step quality = (case quality of None \<Rightarrow> 8 | Some q \<Rightarrow> if q < 92 / 100 then 10 else 8)"

definition lossy_toDataURL :: "Canvas \<Rightarrow> string \<Rightarrow> real option \<Rightarrow> jsstring" where
  "lossy_toDataURL canvas type quality =
     ascii ''data:'' @ ascii type @ ascii '';base64,'' @
     (case drawn canvas of
        DrawImage img # ops \<Rightarrow>
          ascii (if ops = [] then ''0'' else ''1'') @
          [of_nat (unat (pixels img 0 0) - unat (pixels img 0 0) mod jpeg_step quality)]
      | _ \<Rightarrow> [])"

definition lossy_browser :: browser where
  "lossy_browser =
     \<lparr>getContext2d = True,
      loadMetadata = (\<lambda>f. Inr \<lparr>duration = Fin 12, videoWidth = 400, videoHeight = 400\<rparr>),
      seek = (\<lambda>f t. Inr (gray 255)),
      loadImage = (\<lambda>url. if url = [] then None else Some (gray (unat (last url)))),
      toDataURL = lossy_toDataURL\<rparr>"

definition frame_url :: jsstring where
  "frame_url = ascii ''data:image/jpeg;base64,0'' @ [250]"

definition returned_url :: jsstring where
  "returned_url = ascii ''data:image/jpeg;base64,0'' @ [248]"

text \<open>Boxes: one with its sides swapped, one outside the picture, one with a \<open>NaN\<close>.\<close>

definition inverted_box :: BoundingBox where
  "inverted_box = \<lparr>x_min = Fin (3 / 5), y_min = Fin (1 / 10), x_max = Fin (2 / 5), y_max = Fin (3 / 10)\<rparr>"

definition outside_box :: BoundingBox where
  "outside_box = \<lparr>x_min = Fin (3 / 2), y_min = Fin (6 / 5), x_max = Fin 2, y_max = Fin (9 / 5)\<rparr>"

definition nan_box :: BoundingBox where
  "nan_box = \<lparr>x_min = NaN, y_min = Fin (1 / 10), x_max = Fin (1 / 2), y_max = Fin (9 / 10)\<rparr>"

text \<open>
  Clicks: \<open>first_run\<close> and \<open>second_run\<close> are two in a row on the same clip, the second
  before the first one's frame job has ended; \<open>two_run\<close> is one on the damaged clip.
\<close>

definition idle_state :: AppState where
  "idle_state = \<lparr>identifiedObjects = [], rawJsonOutput = None, isLoading = False, error = None\<rparr>"

definition first_run :: "AppState \<times> (nat \<times> VideoObject) list" where
  "first_run = handleIdentifyClick (answering mock_json) (Some good_video) (ascii ''glock'') idle_state"

definition second_run :: "AppState \<times> (nat \<times> VideoObject) list" where
  "second_run =
     handleIdentifyClick (answering second_json) (Some good_video) (ascii ''glock'') (fst first_run)"

definition two_run :: "AppState \<times> (nat \<times> VideoObject) list" where
  "two_run = handleIdentifyClick (answering two_json) (Some damaged_video) (ascii ''glock'') idle_state"

section \<open>Properties of the detection client\<close>

declare retryLoop.simps [simp del]

lemma retryLoop_return:
  "i < maxRetries \<Longrightarrow> tryBody w i = Inr r \<Longrightarrow>
   retryLoop w i d effs = (Inr r, effs @ [CallGenerateContent i])"
  by (subst retryLoop.simps) simp

lemma retryLoop_continue:
  "i < maxRetries - 1 \<Longrightarrow> tryBody w i = Inl e \<Longrightarrow> isServiceUnavailable e \<Longrightarrow>
   retryLoop w i d effs =
   retryLoop w (i + 1) (d * 2) (effs @ [CallGenerateContent i, SetTimeout d])"
  by (subst retryLoop.simps) auto

lemma retryLoop_throw:
  "i < maxRetries \<Longrightarrow> tryBody w i = Inl e \<Longrightarrow> \<not> (isServiceUnavailable e \<and> i < maxRetries - 1) \<Longrightarrow>
   retryLoop w i d effs = (Inl (Error failed_message), effs @ [CallGenerateContent i])"
  by (subst retryLoop.simps) auto

lemma transientFailure_tryBody:
  "transientFailure w i \<Longrightarrow> \<exists>e. tryBody w i = Inl e \<and> isServiceUnavailable e"
  by (auto simp: transientFailure_def tryBody_def split: settled.splits)

lemma retries_Suc:
  "retries (Suc n) = retries n @ [CallGenerateContent n, SetTimeout (1000 * 2 ^ n)]"
  by (simp add: retries_def)

lemma retryLoop_after_retries:
  "n < maxRetries \<Longrightarrow> \<forall>j<n. transientFailure w j \<Longrightarrow>
   retryLoop w 0 1000 [] = retryLoop w n (1000 * 2 ^ n) (retries n)"
proof (induction n)
  case 0
  show ?case by (simp add: retries_def)
next
  case (Suc n)
  from Suc.prems have n: "n < maxRetries - 1" and tf: "transientFailure w n"
    and before: "\<forall>j<n. transientFailure w j" by auto
  from tf obtain e where e: "tryBody w n = Inl e" "isServiceUnavailable e"
    using transientFailure_tryBody by blast
  have "retryLoop w 0 1000 [] = retryLoop w n (1000 * 2 ^ n) (retries n)"
    using Suc.IH n before by simp
  also have "\<dots> = retryLoop w (n + 1) (1000 * 2 ^ n * 2)
                     (retries n @ [CallGenerateContent n, SetTimeout (1000 * 2 ^ n)])"
    by (rule retryLoop_continue [OF n e])
  finally show ?case by (simp add: retries_Suc mult.commute)
qed

lemma identify_configured:
  "configured w \<Longrightarrow> identifyObjectsInVideo w = retryLoop w 0 1000 []"
  by (auto simp: configured_def identifyObjectsInVideo_def split: option.splits sum.splits)

lemmas str_eval = isServiceUnavailable_def Error_def str_includes_def ascii_def sublist_code

text \<open>
  C1. When the detection call fails three times in a row with a service-unavailable
  error, \<open>identifyObjectsInVideo\<close> makes exactly three calls (whatever a fourth would
  have done), waits 1000 ms after the first and 2000 ms after the second, and throws the
  terminal error after the third.
\<close>

theorem three_transient_failures:
  assumes "configured w" and "\<forall>i<3. transientFailure w i"
  shows "identifyObjectsInVideo w =
           (Inl (Error failed_message),
            [CallGenerateContent 0, SetTimeout 1000, CallGenerateContent 1, SetTimeout 2000,
             CallGenerateContent 2])"
proof -
  have two: "\<forall>j<2. transientFailure w j" and third: "transientFailure w 2"
    using assms(2) by auto
  from third obtain e where e: "tryBody w 2 = Inl e"
    using transientFailure_tryBody by blast
  have "identifyObjectsInVideo w = retryLoop w 2 (1000 * 2 ^ 2) (retries 2)"
    using identify_configured [OF assms(1)] retryLoop_after_retries [of 2 w] two
    by (simp add: maxRetries_def)
  also have "\<dots> = (Inl (Error failed_message), retries 2 @ [CallGenerateContent 2])"
    by (rule retryLoop_throw [OF _ e]) (simp_all add: maxRetries_def)
  also have "retries 2 = [CallGenerateContent 0, SetTimeout 1000, CallGenerateContent 1, SetTimeout 2000]"
    by (simp add: retries_def numeral_2_eq_2)
  finally show ?thesis by simp
qed

theorem three_transient_failures_witness:
  "configured overloaded_world \<and> transientFailure overloaded_world 0 \<and>
   transientFailure overloaded_world 1 \<and> transientFailure overloaded_world 2 \<and>
   identifyObjectsInVideo overloaded_world =
     (Inl (Error failed_message),
      [CallGenerateContent 0, SetTimeout 1000, CallGenerateContent 1, SetTimeout 2000,
       CallGenerateContent 2])"
proof -
  have c: "configured overloaded_world"
    by (simp add: configured_def overloaded_world_def ascii_def)
  have t: "\<forall>i<3. transientFailure overloaded_world i"
    by (simp add: transientFailure_def overloaded_world_def str_eval)
  show ?thesis using c t three_transient_failures [OF c t] by simp
qed

lemma identify_after_retries:
  "configured w \<Longrightarrow> n < maxRetries \<Longrightarrow> \<forall>j<n. transientFailure w j \<Longrightarrow>
   identifyObjectsInVideo w = retryLoop w n (1000 * 2 ^ n) (retries n)"
  using identify_configured retryLoop_after_retries by metis







text \<open>
  The test in \<^verbatim>\<open>catch\<close> reads the message of whatever was thrown. A SyntaxError from
  \<^verbatim>\<open>JSON.parse\<close> whose message contains one of the three markers is therefore retried
  like a service-unavailable rejection.
\<close>

lemma marked_parse_error_is_retried:
  assumes "i < maxRetries - 1" and "generateContent w i = Fulfils t" and "trim t \<noteq> []"
    and "JSON_parse w (trim t) = Inl e" and "isServiceUnavailable e"
  shows "retryLoop w i d effs =
           retryLoop w (i + 1) (d * 2) (effs @ [CallGenerateContent i, SetTimeout d])"
proof -
  have "tryBody w i = Inl e"
    using assms(2-4) by (simp add: tryBody_def)
  then show ?thesis
    using assms(1,5) by (simp add: retryLoop_continue)
qed

lemma trim_blank:
  assumes "\<forall>c \<in> set t. isWhiteSpace c"
  shows "trim t = []"
proof -
  have d: "dropWhile isWhiteSpace t = []"
    using assms by (simp add: dropWhile_eq_Nil_conv)
  show ?thesis unfolding trim_def d by simp
qed

lemma trim_padded:
  assumes "\<forall>c \<in> set pre. isWhiteSpace c" and "\<forall>c \<in> set post. isWhiteSpace c"
    and "s \<noteq> []" and "\<not> isWhiteSpace (hd s)" and "\<not> isWhiteSpace (last s)"
  shows "trim (pre @ s @ post) = s"
proof -
  have "dropWhile isWhiteSpace (pre @ s @ post) = dropWhile isWhiteSpace (s @ post)"
    using assms(1) by (intro dropWhile_append2) simp
  then have 1: "dropWhile isWhiteSpace (pre @ s @ post) = s @ post"
    using assms(3,4) by (cases s) simp_all
  have "dropWhile isWhiteSpace (rev post @ rev s) = dropWhile isWhiteSpace (rev s)"
    using assms(2) by (intro dropWhile_append2) simp
  then have "dropWhile isWhiteSpace (rev (s @ post)) = dropWhile isWhiteSpace (rev s)"
    by simp
  also have "\<dots> = rev s"
    using assms(3,5) by (simp add: dropWhile_eq_self_iff hd_rev)
  finally show ?thesis by (simp add: trim_def 1)
qed

lemma trim_padded_array:
  assumes "\<forall>c \<in> set pre. isWhiteSpace c" and "\<forall>c \<in> set post. isWhiteSpace c"
  shows "trim (pre @ ascii ''[]'' @ post) = ascii ''[]''"
  by (rule trim_padded [OF assms]) (simp_all add: ascii_def isWhiteSpace_def)

text \<open>
  C6, as the code has it. A response whose text is a string of nothing but whitespace
  (the empty string too), or is \<^verbatim>\<open>[]\<close> with nothing but whitespace around it (which
  \<^verbatim>\<open>JSON.parse\<close> reads as the empty array), makes \<open>identifyObjectsInVideo\<close> return, not
  throw: the object list is empty and \<open>rawJson\<close> is the string \<^verbatim>\<open>[]\<close>.
\<close>

theorem empty_response_is_empty_result:
  assumes "configured w" and "n < maxRetries" and "\<forall>j<n. transientFailure w j"
    and "generateContent w n = Fulfils t"
    and "(\<forall>c \<in> set t. isWhiteSpace c) \<or>
         (\<exists>pre post. t = pre @ ascii ''[]'' @ post \<and>
            (\<forall>c \<in> set pre. isWhiteSpace c) \<and> (\<forall>c \<in> set post. isWhiteSpace c) \<and>
            JSON_parse w (ascii ''[]'') = Inr [])"
  shows "identifyObjectsInVideo w =
           (Inr \<lparr>objects = [], rawJson = ascii ''[]''\<rparr>, retries n @ [CallGenerateContent n])"
proof -
  have "trim t = [] \<or> (trim t = ascii ''[]'' \<and> JSON_parse w (ascii ''[]'') = Inr [])"
    using assms(5) trim_blank trim_padded_array by blast
  then have "tryBody w n = Inr \<lparr>objects = [], rawJson = ascii ''[]''\<rparr>"
    using assms(4) by (auto simp: tryBody_def Let_def ascii_def)
  then show ?thesis
    using identify_after_retries [OF assms(1-3)] retryLoop_return [OF assms(2)] by simp
qed

theorem empty_response_is_empty_result_witness:
  "configured blank_text_world \<and>
   generateContent blank_text_world 0 = Fulfils [0x0020, 0x0009, 0x000A] \<and>
   isWhiteSpace 0x0020 \<and> isWhiteSpace 0x0009 \<and> isWhiteSpace 0x000A \<and>
   identifyObjectsInVideo blank_text_world =
     (Inr \<lparr>objects = [], rawJson = ascii ''[]''\<rparr>, [CallGenerateContent 0]) \<and>
   configured padded_array_world \<and> transientFailure padded_array_world 0 \<and>
   generateContent padded_array_world 1 = Fulfils ([0x0020] @ ascii ''[]'' @ [0x000A]) \<and>
   JSON_parse padded_array_world (ascii ''[]'') = Inr [] \<and>
   identifyObjectsInVideo padded_array_world =
     (Inr \<lparr>objects = [], rawJson = ascii ''[]''\<rparr>,
      [CallGenerateContent 0, SetTimeout 1000, CallGenerateContent 1])"
proof -
  have ws: "isWhiteSpace 0x0020 \<and> isWhiteSpace 0x0009 \<and> isWhiteSpace 0x000A"
    by (simp add: isWhiteSpace_def)
  have c: "configured blank_text_world"
    by (simp add: configured_def blank_text_world_def ascii_def)
  have m: "(0::nat) < maxRetries" by (simp add: maxRetries_def)
  have t: "\<forall>j<0. transientFailure blank_text_world j" by simp
  have g: "generateContent blank_text_world 0 = Fulfils [0x0020, 0x0009, 0x000A]"
    by (simp add: blank_text_world_def)
  have b: "(\<forall>c \<in> set [0x0020, 0x0009, 0x000A]. isWhiteSpace c) \<or>
         (\<exists>pre post. [0x0020, 0x0009, 0x000A] = pre @ ascii ''[]'' @ post \<and>
            (\<forall>c \<in> set pre. isWhiteSpace c) \<and> (\<forall>c \<in> set post. isWhiteSpace c) \<and>
            JSON_parse blank_text_world (ascii ''[]'') = Inr [])"
    using ws by simp
  have 1: "identifyObjectsInVideo blank_text_world =
     (Inr \<lparr>objects = [], rawJson = ascii ''[]''\<rparr>, [CallGenerateContent 0])"
    using empty_response_is_empty_result [OF c m t g b] by (simp add: retries_def)
  have c': "configured padded_array_world"
    by (simp add: configured_def padded_array_world_def ascii_def)
  have m': "(1::nat) < maxRetries" by (simp add: maxRetries_def)
  have t0: "transientFailure padded_array_world 0"
    by (simp add: transientFailure_def padded_array_world_def str_eval)
  then have t': "\<forall>j<1. transientFailure padded_array_world j" by simp
  have g': "generateContent padded_array_world 1 = Fulfils ([0x0020] @ ascii ''[]'' @ [0x000A])"
    by (simp add: padded_array_world_def)
  have p': "JSON_parse padded_array_world (ascii ''[]'') = Inr []"
    by (simp add: padded_array_world_def toy_parse_def)
  have b': "(\<forall>c \<in> set ([0x0020] @ ascii ''[]'' @ [0x000A]). isWhiteSpace c) \<or>
         (\<exists>pre post. [0x0020] @ ascii ''[]'' @ [0x000A] = pre @ ascii ''[]'' @ post \<and>
            (\<forall>c \<in> set pre. isWhiteSpace c) \<and> (\<forall>c \<in> set post. isWhiteSpace c) \<and>
            JSON_parse padded_array_world (ascii ''[]'') = Inr [])"
  proof (rule disjI2, intro exI conjI)
    show "[0x0020] @ ascii ''[]'' @ [0x000A] = [0x0020] @ ascii ''[]'' @ [0x000A]" by (rule refl)
    show "\<forall>c \<in> set [0x0020]. isWhiteSpace c" using ws by simp
    show "\<forall>c \<in> set [0x000A]. isWhiteSpace c" using ws by simp
    show "JSON_parse padded_array_world (ascii ''[]'') = Inr []" by (rule p')
  qed
  have 2: "identifyObjectsInVideo padded_array_world =
     (Inr \<lparr>objects = [], rawJson = ascii ''[]''\<rparr>,
      [CallGenerateContent 0, SetTimeout 1000, CallGenerateContent 1])"
    using empty_response_is_empty_result [OF c' m' t' g' b'] by (simp add: retries_def)
  show ?thesis using ws c g 1 c' t0 g' p' 2 by simp
qed

text \<open>
  C6 as stated fails for a response that carries no text: reading \<^verbatim>\<open>trim\<close> from it
  throws inside the \<^verbatim>\<open>try\<close> block, and the function ends in the terminal error.
\<close>

theorem response_without_text_counterexample:
  "generateContent no_text_world 0 = FulfilsWithoutText \<and>
   identifyObjectsInVideo no_text_world =
     (Inl (Error failed_message), [CallGenerateContent 0])"
proof -
  have c: "configured no_text_world"
    by (simp add: configured_def no_text_world_def ascii_def)
  have g: "generateContent no_text_world 0 = FulfilsWithoutText"
    by (simp add: no_text_world_def)
  have e: "tryBody no_text_world 0 = Inl v8_trimOfUndefined"
    by (simp add: tryBody_def no_text_world_def)
  have u: "\<not> isServiceUnavailable v8_trimOfUndefined"
    by (simp add: v8_trimOfUndefined_def str_eval)
  have "retryLoop no_text_world 0 1000 [] = (Inl (Error failed_message), [] @ [CallGenerateContent 0])"
    by (rule retryLoop_throw [OF _ e]) (simp_all add: maxRetries_def u)
  then show ?thesis using g identify_configured [OF c] by simp
qed

lemma trim_unchanged:
  "s \<noteq> [] \<Longrightarrow> \<not> isWhiteSpace (hd s) \<Longrightarrow> \<not> isWhiteSpace (last s) \<Longrightarrow> trim s = s"
proof -
  assume a: "s \<noteq> []" "\<not> isWhiteSpace (hd s)" "\<not> isWhiteSpace (last s)"
  have 1: "dropWhile isWhiteSpace s = s"
    using a(2) by (simp add: dropWhile_eq_self_iff)
  have 2: "dropWhile isWhiteSpace (rev s) = rev s"
    using a(1,3) by (simp add: dropWhile_eq_self_iff hd_rev)
  show ?thesis by (simp add: trim_def 1 2)
qed

text \<open>
  C9, as the code has it. For a response that is not blank and parses, \<open>rawJson\<close> is
  the response text with leading and trailing whitespace removed; it is the response text
  itself when that text neither starts nor ends with whitespace.
\<close>

theorem rawJson_is_trimmed_text:
  assumes "configured w" and "n < maxRetries" and "\<forall>j<n. transientFailure w j"
    and "generateContent w n = Fulfils t" and "trim t \<noteq> []"
    and "JSON_parse w (trim t) = Inr objs"
  shows "identifyObjectsInVideo w =
           (Inr \<lparr>objects = objs, rawJson = trim t\<rparr>, retries n @ [CallGenerateContent n]) \<and>
         (\<not> isWhiteSpace (hd t) \<and> \<not> isWhiteSpace (last t) \<longrightarrow> trim t = t)"
proof -
  have "tryBody w n = Inr \<lparr>objects = objs, rawJson = trim t\<rparr>"
    using assms(4-6) by (simp add: tryBody_def)
  then have 1: "identifyObjectsInVideo w =
           (Inr \<lparr>objects = objs, rawJson = trim t\<rparr>, retries n @ [CallGenerateContent n])"
    using identify_after_retries [OF assms(1-3)] retryLoop_return [OF assms(2)] by simp
  have "t \<noteq> []" using assms(5) by (auto simp: trim_def)
  then show ?thesis using 1 trim_unchanged by blast
qed

lemma trim_mock_json_newline: "trim (mock_json @ [0x0A]) = mock_json"
  by (simp add: trim_def mock_json_def ascii_def isWhiteSpace_def)

theorem rawJson_is_trimmed_text_witness:
  "configured trailing_newline_world \<and> (0::nat) < maxRetries \<and>
   generateContent trailing_newline_world 0 = Fulfils (mock_json @ [0x0A]) \<and>
   trim (mock_json @ [0x0A]) \<noteq> [] \<and>
   JSON_parse trailing_newline_world (trim (mock_json @ [0x0A])) = Inr [mock_glock] \<and>
   identifyObjectsInVideo trailing_newline_world =
     (Inr \<lparr>objects = [mock_glock], rawJson = mock_json\<rparr>, [CallGenerateContent 0])"
proof -
  have c: "configured trailing_newline_world"
    by (simp add: configured_def trailing_newline_world_def ascii_def)
  have m: "(0::nat) < maxRetries" by (simp add: maxRetries_def)
  have t: "\<forall>j<0. transientFailure trailing_newline_world j" by simp
  have g: "generateContent trailing_newline_world 0 = Fulfils (mock_json @ [0x0A])"
    by (simp add: trailing_newline_world_def)
  have ne: "trim (mock_json @ [0x0A]) \<noteq> []"
    unfolding trim_mock_json_newline by (simp add: mock_json_def ascii_def)
  have p: "JSON_parse trailing_newline_world (trim (mock_json @ [0x0A])) = Inr [mock_glock]"
    unfolding trim_mock_json_newline
    by (simp add: trailing_newline_world_def toy_parse_def mock_json_def ascii_def)
  show ?thesis
    using c m t g ne p rawJson_is_trimmed_text [OF c m t g ne p]
    by (simp add: trim_mock_json_newline retries_def)
qed

text \<open>
  C9 as stated fails: a response ending in a line feed is returned without it.
\<close>

theorem rawJson_not_exact_counterexample:
  "generateContent trailing_newline_world 0 = Fulfils (mock_json @ [0x0A]) \<and>
   fst (identifyObjectsInVideo trailing_newline_world) =
     Inr \<lparr>objects = [mock_glock], rawJson = mock_json\<rparr> \<and>
   mock_json \<noteq> mock_json @ [0x0A]"
proof -
  have c: "configured trailing_newline_world"
    by (simp add: configured_def trailing_newline_world_def ascii_def)
  have g: "generateContent trailing_newline_world 0 = Fulfils (mock_json @ [0x0A])"
    by (simp add: trailing_newline_world_def)
  have p: "JSON_parse trailing_newline_world mock_json = Inr [mock_glock]"
    by (simp add: trailing_newline_world_def toy_parse_def mock_json_def ascii_def)
  have ne: "mock_json \<noteq> []"
    by (simp add: mock_json_def ascii_def)
  have "tryBody trailing_newline_world 0 = Inr \<lparr>objects = [mock_glock], rawJson = mock_json\<rparr>"
    using g p ne by (simp add: tryBody_def trim_mock_json_newline)
  then have "retryLoop trailing_newline_world 0 1000 [] =
      (Inr \<lparr>objects = [mock_glock], rawJson = mock_json\<rparr>, [CallGenerateContent 0])"
    using retryLoop_return [of 0 trailing_newline_world _ 1000 "[]"] by (simp add: maxRetries_def)
  then show ?thesis using g identify_configured [OF c] by simp
qed


section \<open>Properties of frame extraction and annotation\<close>

lemma jgt_jsub_zero: "jgt (jsub a b) (Fin 0) = jgt a b"
  by (cases a; cases b) auto

lemma Math_max_Fin: "Math_max (Fin a) (Fin b) = Fin (max a b)"
  by (simp add: max_def)

lemma Math_min_Fin: "Math_min (Fin a) (Fin b) = Fin (min a b)"
  by (simp add: min_def)

lemma annotated_eq:
  "annotated img box =
     (case pixelBox img box of (x1, y1, x2, y2) \<Rightarrow>
        if jgt x2 x1 \<and> jgt y2 y1
        then \<lparr>canvas_width = width img, canvas_height = height img,
              drawn = [DrawImage img, StrokeRect x1 y1 (jsub x2 x1) (jsub y2 y1) (boxStyle img)]\<rparr>
        else undrawn img)"
  by (simp add: annotated_def undrawn_def boxStyle_def Let_def jgt_jsub_zero split: prod.splits)


lemma clamp_not_wider:
  "jge lo hi \<Longrightarrow> \<not> jgt (Math_min (num n) (jmul hi (num n))) (Math_max (Fin 0) (jmul lo (num n)))"
proof (cases lo; cases hi)
  fix a c assume "lo = Fin a" "hi = Fin c" "jge lo hi"
  then have "c \<le> a" by auto
  then have "c * real n \<le> a * real n" by (simp add: mult_right_mono)
  then have "\<not> max 0 (a * real n) < min (real n) (c * real n)" by linarith
  then show ?thesis unfolding \<open>lo = Fin a\<close> \<open>hi = Fin c\<close>
    by (simp only: num_def jmul.simps Math_max_Fin Math_min_Fin jgt.simps not_False_eq_True)
qed (auto simp: num_def)

lemma degenerate_undrawn:
  assumes "jge (x_min box) (x_max box) \<or> jge (y_min box) (y_max box)"
  shows "annotated img box = undrawn img"
  using assms clamp_not_wider [of "x_min box" "x_max box" "width img"]
    clamp_not_wider [of "y_min box" "y_max box" "height img"]
  by (auto simp: annotated_eq pixelBox_def Let_def)

lemma nan_not_wider:
  "lo = NaN \<or> hi = NaN \<Longrightarrow>
   \<not> jgt (Math_min (num n) (jmul hi (num n))) (Math_max (Fin 0) (jmul lo (num n)))"
  by (cases lo; cases hi) (auto simp: num_def)

lemma outside_not_wider:
  assumes "jge lo (Fin 1) \<or> jge (Fin 0) hi"
  shows "\<not> jgt (Math_min (num n) (jmul hi (num n))) (Math_max (Fin 0) (jmul lo (num n)))"
proof (cases lo; cases hi)
  fix a c assume eq: "lo = Fin a" "hi = Fin c"
  have n: "0 \<le> real n" by simp
  from assms eq have "1 \<le> a \<or> c \<le> 0" by auto
  then have "real n \<le> a * real n \<or> c * real n \<le> 0"
    using n by (metis mult_le_cancel_right1 mult_nonneg_nonpos2 mult.commute of_nat_less_0_iff)
  then have "\<not> max 0 (a * real n) < min (real n) (c * real n)" by linarith
  then show ?thesis unfolding eq
    by (simp only: num_def jmul.simps Math_max_Fin Math_min_Fin jgt.simps not_False_eq_True)
next
  fix a assume eq: "lo = Fin a" "hi = PosInf"
  with assms have "1 \<le> a" by auto
  then have "real n \<le> a * real n" by (simp add: mult_le_cancel_right1)
  then show ?thesis unfolding eq by (auto simp: num_def)
next
  fix c assume eq: "lo = NegInf" "hi = Fin c"
  with assms have "c \<le> 0" by auto
  then have "c * real n \<le> 0" by (simp add: mult_nonneg_nonpos2 mult.commute)
  then show ?thesis unfolding eq by (auto simp: num_def)
qed (use assms in \<open>auto simp: num_def\<close>)

lemma draw_resolves:
  "loadImage br url = Some img \<Longrightarrow> getContext2d br \<Longrightarrow>
   drawBoundingBoxOnImage br url box =
     Resolved (toDataURL br (annotated img box) ''image/jpeg'' None)"
  by (simp add: drawBoundingBoxOnImage_def)

text \<open>
  C2, as the code has it. For a box with \<^verbatim>\<open>x_min >= x_max\<close> or \<^verbatim>\<open>y_min >= y_max\<close>, on a
  picture that loads, nothing is drawn over the picture and the function resolves; what
  it resolves with is the browser's JPEG encoding, at the default quality, of a canvas
  that holds the picture and nothing else. Where the browser decodes that encoding back
  to the picture, the image returned has the raster content of the image passed in.
\<close>

theorem degenerate_box_is_not_drawn:
  assumes "jge (x_min box) (x_max box) \<or> jge (y_min box) (y_max box)"
    and "loadImage br url = Some img" and "getContext2d br"
  shows "annotated img box = undrawn img \<and>
         drawBoundingBoxOnImage br url box =
           Resolved (toDataURL br (undrawn img) ''image/jpeg'' None) \<and>
         (loadImage br (toDataURL br (undrawn img) ''image/jpeg'' None) = Some img \<longrightarrow>
            (\<exists>result. drawBoundingBoxOnImage br url box = Resolved result \<and>
                       loadImage br result = loadImage br url))"
  using degenerate_undrawn [OF assms(1)] draw_resolves [OF assms(2,3)] assms(2) by simp

theorem degenerate_box_is_not_drawn_witness:
  "jge (x_min inverted_box) (x_max inverted_box) \<and>
   loadImage sample_browser (ascii ''data:image/jpeg;base64,chosen0w'') = Some light_frame \<and>
   getContext2d sample_browser \<and>
   annotated light_frame inverted_box = undrawn light_frame \<and>
   drawBoundingBoxOnImage sample_browser (ascii ''data:image/jpeg;base64,chosen0w'') inverted_box =
     Resolved (ascii ''data:image/jpeg;base64,default0w'') \<and>
   loadImage sample_browser (ascii ''data:image/jpeg;base64,default0w'') = Some light_frame"
proof -
  let ?u = "ascii ''data:image/jpeg;base64,chosen0w''"
  have 1: "jge (x_min inverted_box) (x_max inverted_box) \<or> jge (y_min inverted_box) (y_max inverted_box)"
    by (simp add: inverted_box_def)
  have 2: "loadImage sample_browser ?u = Some light_frame"
    by (simp add: sample_browser_def ascii_def)
  have 3: "getContext2d sample_browser" by (simp add: sample_browser_def)
  have e: "toDataURL sample_browser (undrawn light_frame) ''image/jpeg'' None =
     ascii ''data:image/jpeg;base64,default0w''"
    by (simp add: sample_browser_def sample_toDataURL_def undrawn_def ascii_def light_frame_def)
  have r: "loadImage sample_browser (ascii ''data:image/jpeg;base64,default0w'') = Some light_frame"
    by (simp add: sample_browser_def ascii_def)
  from degenerate_box_is_not_drawn [OF 1 2 3] e r
  have "annotated light_frame inverted_box = undrawn light_frame"
    and "drawBoundingBoxOnImage sample_browser ?u inverted_box =
           Resolved (ascii ''data:image/jpeg;base64,default0w'')"
    by simp_all
  then show ?thesis using 2 3 r by (simp add: inverted_box_def)
qed

lemma lossy_facts:
  "extractFrameFromVideo lossy_browser good_video (Fin (5 / 2)) = Resolved frame_url"
  "loadImage lossy_browser frame_url = Some (gray 250)"
  "toDataURL lossy_browser (undrawn (gray 250)) ''image/jpeg'' None = returned_url"
  "loadImage lossy_browser returned_url = Some (gray 248)"
  "pixels (gray 248) 0 0 \<noteq> pixels (gray 250) 0 0"
  by (simp_all add: extractFrameFromVideo_def lossy_browser_def seekTime_def onSeeked_def
      lossy_toDataURL_def jpeg_step_def gray_def undrawn_def frame_url_def returned_url_def
      ascii_def)

text \<open>
  C2 as stated fails where the encoding loses something. In the lossy browser the frame
  comes from \<open>extractFrameFromVideo\<close>, encoded at quality 0.9, with shade 250; after
  \<open>drawBoundingBoxOnImage\<close> with a box whose sides are swapped, the image returned has
  shade 248: no rectangle, but not the raster content of the image passed in.
\<close>

theorem raster_not_preserved_counterexample:
  "jge (x_min inverted_box) (x_max inverted_box) \<and>
   extractFrameFromVideo lossy_browser good_video (Fin (5 / 2)) = Resolved frame_url \<and>
   loadImage lossy_browser frame_url = Some (gray 250) \<and>
   drawBoundingBoxOnImage lossy_browser frame_url inverted_box = Resolved returned_url \<and>
   loadImage lossy_browser returned_url = Some (gray 248) \<and>
   pixels (gray 248) 0 0 \<noteq> pixels (gray 250) 0 0"
proof -
  have 1: "jge (x_min inverted_box) (x_max inverted_box) \<or> jge (y_min inverted_box) (y_max inverted_box)"
    by (simp add: inverted_box_def)
  have g: "getContext2d lossy_browser" by (simp add: lossy_browser_def)
  have "drawBoundingBoxOnImage lossy_browser frame_url inverted_box =
          Resolved (toDataURL lossy_browser (annotated (gray 250) inverted_box) ''image/jpeg'' None)"
    by (rule draw_resolves [OF lossy_facts(2) g])
  then have "drawBoundingBoxOnImage lossy_browser frame_url inverted_box = Resolved returned_url"
    by (simp add: degenerate_undrawn [OF 1] lossy_facts(3))
  then show ?thesis using lossy_facts by (simp add: inverted_box_def)
qed




text \<open>
  C10. The box decides neither whether \<open>drawBoundingBoxOnImage\<close> settles nor how: a
  rejection with one box is the same rejection with any other, and once the picture loads
  and a context exists the function resolves for every box. Whenever the clamped width or
  height is not positive nothing is drawn over the picture; that is so for a box with a
  \<open>NaN\<close> coordinate and for a box that lies beyond the picture on one side, ordered or not.
\<close>

theorem box_never_rejects:
  "(drawBoundingBoxOnImage br url box = Rejected r \<longrightarrow>
      drawBoundingBoxOnImage br url box' = Rejected r) \<and>
   drawBoundingBoxOnImage br url box \<noteq> Pending \<and>
   (loadImage br url = Some img \<and> getContext2d br \<longrightarrow>
      drawBoundingBoxOnImage br url box =
        Resolved (toDataURL br (annotated img box) ''image/jpeg'' None)) \<and>
   (pixelBox img box = (x1, y1, x2, y2) \<and>
    \<not> (jgt (jsub x2 x1) (Fin 0) \<and> jgt (jsub y2 y1) (Fin 0)) \<longrightarrow>
      annotated img box = undrawn img) \<and>
   (x_min box = NaN \<or> y_min box = NaN \<or> x_max box = NaN \<or> y_max box = NaN \<longrightarrow>
      annotated img box = undrawn img) \<and>
   (jge (x_min box) (Fin 1) \<or> jge (Fin 0) (x_max box) \<or>
    jge (y_min box) (Fin 1) \<or> jge (Fin 0) (y_max box) \<longrightarrow>
      annotated img box = undrawn img)"
proof (intro conjI impI)
  assume "drawBoundingBoxOnImage br url box = Rejected r"
  then show "drawBoundingBoxOnImage br url box' = Rejected r"
    by (auto simp: drawBoundingBoxOnImage_def split: option.splits if_splits)
next
  show "drawBoundingBoxOnImage br url box \<noteq> Pending"
    by (simp add: drawBoundingBoxOnImage_def split: option.splits)
next
  assume "loadImage br url = Some img \<and> getContext2d br"
  then show "drawBoundingBoxOnImage br url box =
        Resolved (toDataURL br (annotated img box) ''image/jpeg'' None)"
    by (simp add: draw_resolves)
next
  assume "pixelBox img box = (x1, y1, x2, y2) \<and>
    \<not> (jgt (jsub x2 x1) (Fin 0) \<and> jgt (jsub y2 y1) (Fin 0))"
  then show "annotated img box = undrawn img"
    by (auto simp: annotated_eq jgt_jsub_zero)
next
  assume "x_min box = NaN \<or> y_min box = NaN \<or> x_max box = NaN \<or> y_max box = NaN"
  then have "x_min box = NaN \<or> x_max box = NaN \<or> y_min box = NaN \<or> y_max box = NaN"
    by blast
  then show "annotated img box = undrawn img"
    using nan_not_wider [of "x_min box" "x_max box" "width img"]
      nan_not_wider [of "y_min box" "y_max box" "height img"]
    by (auto simp: annotated_eq pixelBox_def Let_def)
next
  assume "jge (x_min box) (Fin 1) \<or> jge (Fin 0) (x_max box) \<or>
    jge (y_min box) (Fin 1) \<or> jge (Fin 0) (y_max box)"
  then have "(jge (x_min box) (Fin 1) \<or> jge (Fin 0) (x_max box)) \<or>
    (jge (y_min box) (Fin 1) \<or> jge (Fin 0) (y_max box))"
    by blast
  then show "annotated img box = undrawn img"
    using outside_not_wider [of "x_min box" "x_max box" "width img"]
      outside_not_wider [of "y_min box" "y_max box" "height img"]
    by (auto simp: annotated_eq pixelBox_def Let_def)
qed

theorem box_never_rejects_witness:
  "loadImage sample_browser (ascii ''data:image/jpeg;base64,chosen0w'') = Some light_frame \<and>
   getContext2d sample_browser \<and>
   jgt (x_max outside_box) (x_min outside_box) \<and> jgt (y_max outside_box) (y_min outside_box) \<and>
   jge (x_min outside_box) (Fin 1) \<and>
   pixelBox light_frame outside_box = (Fin 600, Fin 480, Fin 400, Fin 400) \<and>
   annotated light_frame outside_box = undrawn light_frame \<and>
   drawBoundingBoxOnImage sample_browser (ascii ''data:image/jpeg;base64,chosen0w'') outside_box =
     Resolved (ascii ''data:image/jpeg;base64,default0w'') \<and>
   x_min nan_box = NaN \<and>
   annotated light_frame nan_box = undrawn light_frame \<and>
   drawBoundingBoxOnImage sample_browser (ascii ''data:image/jpeg;base64,chosen0w'') nan_box =
     Resolved (ascii ''data:image/jpeg;base64,default0w'')"
proof -
  let ?u = "ascii ''data:image/jpeg;base64,chosen0w''"
  have l: "loadImage sample_browser ?u = Some light_frame \<and> getContext2d sample_browser"
    by (simp add: sample_browser_def ascii_def)
  have o: "jge (x_min outside_box) (Fin 1) \<or> jge (Fin 0) (x_max outside_box) \<or>
    jge (y_min outside_box) (Fin 1) \<or> jge (Fin 0) (y_max outside_box)"
    by (simp add: outside_box_def)
  have n: "x_min nan_box = NaN \<or> y_min nan_box = NaN \<or> x_max nan_box = NaN \<or> y_max nan_box = NaN"
    by (simp add: nan_box_def)
  have p: "pixelBox light_frame outside_box = (Fin 600, Fin 480, Fin 400, Fin 400)"
    by (simp add: pixelBox_def outside_box_def light_frame_def num_def)
  have e: "toDataURL sample_browser (undrawn light_frame) ''image/jpeg'' None =
     ascii ''data:image/jpeg;base64,default0w''"
    by (simp add: sample_browser_def sample_toDataURL_def undrawn_def ascii_def light_frame_def)
  from box_never_rejects [of sample_browser ?u outside_box _ _ light_frame] l o
  have 1: "annotated light_frame outside_box = undrawn light_frame"
    and 2: "drawBoundingBoxOnImage sample_browser ?u outside_box =
       Resolved (toDataURL sample_browser (annotated light_frame outside_box) ''image/jpeg'' None)"
    by blast+
  from box_never_rejects [of sample_browser ?u nan_box _ _ light_frame] l n
  have 3: "annotated light_frame nan_box = undrawn light_frame"
    and 4: "drawBoundingBoxOnImage sample_browser ?u nan_box =
       Resolved (toDataURL sample_browser (annotated light_frame nan_box) ''image/jpeg'' None)"
    by blast+
  have "jgt (x_max outside_box) (x_min outside_box) \<and> jgt (y_max outside_box) (y_min outside_box) \<and>
   jge (x_min outside_box) (Fin 1) \<and> x_min nan_box = NaN"
    by (simp add: outside_box_def nan_box_def)
  then show ?thesis using l p e 1 2 3 4 by simp
qed






text \<open>
  In any browser, a timestamp that is \<open>NaN\<close> is not clamped: the value assigned to
  \<^verbatim>\<open>currentTime\<close> is \<open>NaN\<close> and the promise never settles.
\<close>

lemma extract_NaN_never_settles:
  "seekTime NaN video_duration = NaN \<and>
   (getContext2d br \<and> loadMetadata br videoFile = Inr video \<longrightarrow>
      extractFrameFromVideo br videoFile NaN = Pending)"
  by (simp add: seekTime_def extractFrameFromVideo_def)

section \<open>Properties of the frame jobs\<close>

lemma completeJob_applyJob:
  "completeJob br videoFile job st =
     st\<lparr>identifiedObjects := applyJob br videoFile job (identifiedObjects st)\<rparr>"
  by (simp add: completeJob_def applyJob_def settledImage_def split: promise.splits)

lemma completeJobs_fold:
  "completeJobs br videoFile jobs st =
     st\<lparr>identifiedObjects := fold (applyJob br videoFile) jobs (identifiedObjects st)\<rparr>"
  unfolding completeJobs_def
  by (induction jobs arbitrary: st) (simp_all add: completeJob_applyJob)

lemma updater_length: "length (updater i obj fw prev) = length prev"
  by (simp add: updater_def)

lemma updater_nth:
  "k < length prev \<Longrightarrow>
   updater i obj fw prev ! k =
     (if k = i \<and> IdentifiedObject.name (prev ! k) = VideoObject.name obj
      then (prev ! k)\<lparr>imageUrl := Some fw\<rparr> else prev ! k)"
  by (auto simp: updater_def)

lemma applyJob_length: "length (applyJob br videoFile job prev) = length prev"
  by (simp add: applyJob_def updater_length split: option.splits)

lemma applyJob_nth:
  "k < length prev \<Longrightarrow>
   applyJob br videoFile job prev ! k =
     (if k = fst job \<and> IdentifiedObject.name (prev ! k) = VideoObject.name (snd job)
      then (prev ! k)\<lparr>imageUrl := (case settledImage br videoFile (snd job) of
                                      Some fw \<Rightarrow> Some fw | None \<Rightarrow> imageUrl (prev ! k))\<rparr>
      else prev ! k)"
  by (auto simp: applyJob_def updater_nth split: option.splits)

lemma fold_applyJob_length:
  "length (fold (applyJob br videoFile) jobs prev) = length prev"
  by (induction jobs arbitrary: prev) (simp_all add: applyJob_length)

lemma fold_applyJob_slot:
  assumes "k < length prev"
  shows "\<exists>u. fold (applyJob br videoFile) jobs prev ! k = (prev ! k)\<lparr>imageUrl := u\<rparr> \<and>
             (u = imageUrl (prev ! k) \<or>
              (\<exists>obj fw. (k, obj) \<in> set jobs \<and>
                 VideoObject.name obj = IdentifiedObject.name (prev ! k) \<and>
                 frameJob br videoFile obj = Resolved fw \<and> u = Some fw))"
  using assms
proof (induction jobs arbitrary: prev rule: rev_induct)
  case Nil
  then show ?case by (intro exI [of _ "imageUrl (prev ! k)"]) simp
next
  case (snoc job jobs)
  let ?mid = "fold (applyJob br videoFile) jobs prev"
  from snoc.IH [OF snoc.prems] obtain u where
    u: "?mid ! k = (prev ! k)\<lparr>imageUrl := u\<rparr>"
       "u = imageUrl (prev ! k) \<or>
        (\<exists>obj fw. (k, obj) \<in> set jobs \<and>
           VideoObject.name obj = IdentifiedObject.name (prev ! k) \<and>
           frameJob br videoFile obj = Resolved fw \<and> u = Some fw)"
    by blast
  have k: "k < length ?mid" using snoc.prems by (simp add: fold_applyJob_length)
  have step: "fold (applyJob br videoFile) (jobs @ [job]) prev ! k = applyJob br videoFile job ?mid ! k"
    by simp
  show ?case
  proof (cases "k = fst job \<and> IdentifiedObject.name (?mid ! k) = VideoObject.name (snd job) \<and>
                settledImage br videoFile (snd job) \<noteq> None")
    case True
    then obtain fw where fw: "settledImage br videoFile (snd job) = Some fw" by auto
    then have r: "frameJob br videoFile (snd job) = Resolved fw"
      by (auto simp: settledImage_def split: promise.splits)
    have "applyJob br videoFile job ?mid ! k = (?mid ! k)\<lparr>imageUrl := Some fw\<rparr>"
      unfolding applyJob_nth [OF k] using True fw by auto
    then have "applyJob br videoFile job ?mid ! k = (prev ! k)\<lparr>imageUrl := Some fw\<rparr>"
      unfolding u(1) by simp
    moreover have "(k, snd job) \<in> set (jobs @ [job])"
      using True by (cases job) auto
    moreover have "VideoObject.name (snd job) = IdentifiedObject.name (prev ! k)"
      using True u(1) by auto
    ultimately show ?thesis
      unfolding step using r by (intro exI [of _ "Some fw"]) auto
  next
    case False
    then have "applyJob br videoFile job ?mid ! k = ?mid ! k"
      using k by (auto simp: applyJob_nth split: option.splits)
    then show ?thesis
      unfolding step using u by (intro exI [of _ u]) auto
  qed
qed

lemma applyJob_dropped:
  "\<not> (fst job < length prev \<and>
      IdentifiedObject.name (prev ! fst job) = VideoObject.name (snd job)) \<Longrightarrow>
   applyJob br videoFile job prev = prev"
  by (auto simp: applyJob_def updater_def split: option.splits)

lemma fold_applyJob_dropped:
  "\<forall>job \<in> set jobs. \<not> (fst job < length prev \<and>
      IdentifiedObject.name (prev ! fst job) = VideoObject.name (snd job)) \<Longrightarrow>
   fold (applyJob br videoFile) jobs prev = prev"
  by (induction jobs) (simp_all add: applyJob_dropped)


lemma identify_first_response:
  assumes "configured w" and "generateContent w 0 = Fulfils t" and "trim t \<noteq> []"
    and "JSON_parse w (trim t) = Inr objs"
  shows "fst (identifyObjectsInVideo w) = Inr \<lparr>objects = objs, rawJson = trim t\<rparr>"
proof -
  have "tryBody w 0 = Inr \<lparr>objects = objs, rawJson = trim t\<rparr>"
    using assms(2-4) by (simp add: tryBody_def)
  then show ?thesis
    using identify_configured [OF assms(1)] retryLoop_return [of 0 w _ 1000 "[]"]
    by (simp add: maxRetries_def)
qed

lemma configured_answering: "configured (answering t)"
  by (simp add: configured_def answering_def ascii_def)

lemma trim_samples:
  "trim mock_json = mock_json" "trim two_json = two_json" "trim second_json = second_json"
  "trim (ascii ''glock'') \<noteq> []"
  by (simp_all add: trim_def mock_json_def two_json_def second_json_def ascii_def isWhiteSpace_def)

lemma samples_distinct:
  "mock_json \<noteq> []" "two_json \<noteq> []" "second_json \<noteq> []"
  "two_json \<noteq> mock_json" "second_json \<noteq> mock_json" "second_json \<noteq> two_json"
  by (simp_all add: mock_json_def two_json_def second_json_def ascii_def)

lemma identify_samples:
  "fst (identifyObjectsInVideo (answering mock_json)) = Inr \<lparr>objects = [mock_glock], rawJson = mock_json\<rparr>"
  "fst (identifyObjectsInVideo (answering two_json)) =
     Inr \<lparr>objects = [mock_glock, mock_late], rawJson = two_json\<rparr>"
  "fst (identifyObjectsInVideo (answering second_json)) =
     Inr \<lparr>objects = [second_glock], rawJson = second_json\<rparr>"
  using identify_first_response [OF configured_answering, of mock_json mock_json "[mock_glock]"]
    identify_first_response [OF configured_answering, of two_json two_json "[mock_glock, mock_late]"]
    identify_first_response [OF configured_answering, of second_json second_json "[second_glock]"]
  by (simp_all add: trim_samples samples_distinct answering_def run_parse_def)

lemma in_jobs:
  "job \<in> set (zip [0..<length objs] objs) \<Longrightarrow> fst job < length objs \<and> snd job = objs ! fst job"
  by (cases job) (auto simp: in_set_zip)

lemma fold_own_jobs:
  assumes "set order \<subseteq> set (zip [0..<length objs] objs)"
  shows "fold (applyJob br videoFile) order (map initialObject objs) =
           map (\<lambda>i. (initialObject (objs ! i))
                  \<lparr>imageUrl := if (i, objs ! i) \<in> set order
                               then settledImage br videoFile (objs ! i) else None\<rparr>)
               [0..<length objs]"
  using assms
proof (induction order rule: rev_induct)
  case Nil
  show ?case by (rule nth_equalityI) (simp_all add: initialObject_def)
next
  case (snoc job order)
  let ?mid = "fold (applyJob br videoFile) order (map initialObject objs)"
  have mid: "?mid = map (\<lambda>i. (initialObject (objs ! i))
                  \<lparr>imageUrl := if (i, objs ! i) \<in> set order
                               then settledImage br videoFile (objs ! i) else None\<rparr>)
               [0..<length objs]"
    using snoc by simp
  have job: "fst job < length objs" "snd job = objs ! fst job"
    using snoc.prems in_jobs [of job objs] by auto
  show ?case
  proof (rule nth_equalityI)
    show "length (fold (applyJob br videoFile) (order @ [job]) (map initialObject objs)) =
          length (map (\<lambda>i. (initialObject (objs ! i))
                  \<lparr>imageUrl := if (i, objs ! i) \<in> set (order @ [job])
                               then settledImage br videoFile (objs ! i) else None\<rparr>)
               [0..<length objs])"
      by (simp add: fold_applyJob_length applyJob_length)
  next
    fix k assume "k < length (fold (applyJob br videoFile) (order @ [job]) (map initialObject objs))"
    then have k: "k < length objs" by (simp add: fold_applyJob_length applyJob_length)
    then have km: "k < length ?mid" by (simp add: fold_applyJob_length)
    have midk: "?mid ! k = (initialObject (objs ! k))
                  \<lparr>imageUrl := if (k, objs ! k) \<in> set order
                               then settledImage br videoFile (objs ! k) else None\<rparr>"
      using k by (subst mid) simp
    have "applyJob br videoFile job ?mid ! k =
            (initialObject (objs ! k))
              \<lparr>imageUrl := if (k, objs ! k) \<in> set (order @ [job])
                           then settledImage br videoFile (objs ! k) else None\<rparr>"
    proof (cases "k = fst job")
      case True
      then have j: "job = (k, objs ! k)" using job(2) by (cases job) simp
      have nm: "IdentifiedObject.name (?mid ! k) = VideoObject.name (snd job)"
        unfolding midk using j by (simp add: initialObject_def)
      show ?thesis
        unfolding applyJob_nth [OF km] midk using True nm j
        by (auto simp: midk split: option.splits)
    next
      case False
      then have "(k, objs ! k) \<noteq> job" by auto
      then show ?thesis
        unfolding applyJob_nth [OF km] using False by (simp add: midk)
    qed
    then show "fold (applyJob br videoFile) (order @ [job]) (map initialObject objs) ! k =
          map (\<lambda>i. (initialObject (objs ! i))
                  \<lparr>imageUrl := if (i, objs ! i) \<in> set (order @ [job])
                               then settledImage br videoFile (objs ! i) else None\<rparr>)
               [0..<length objs] ! k"
      using k by simp
  qed
qed

lemma handleIdentifyClick_found:
  assumes "trim query \<noteq> []" and "fst (identifyObjectsInVideo w) = Inr result"
    and "objects result \<noteq> []"
  shows "handleIdentifyClick w (Some videoFile) query st =
           (\<lparr>identifiedObjects = map initialObject (objects result),
             rawJsonOutput = Some (rawJson result), isLoading = False, error = None\<rparr>,
            zip [0..<length (objects result)] (objects result))"
  using assms by (simp add: handleIdentifyClick_def Let_def)

text \<open>
  C8. After a click that found objects, let any of its frame jobs run to their end in any
  order. Then the run still shows no error, and each slot holds its own object with the
  picture of its own job if that job is among them and resolved, and no picture
  otherwise: a job that fails leaves its slot's \<open>imageUrl\<close> empty and changes nothing for
  the others.
\<close>

theorem frame_failure_is_isolated:
  assumes "trim query \<noteq> []" and "fst (identifyObjectsInVideo w) = Inr result"
    and "objects result \<noteq> []"
    and "handleIdentifyClick w (Some videoFile) query st = (st', jobs)"
    and "set order \<subseteq> set jobs"
  shows "error (completeJobs br videoFile order st') = None \<and>
         rawJsonOutput (completeJobs br videoFile order st') = Some (rawJson result) \<and>
         length (identifiedObjects (completeJobs br videoFile order st')) = length (objects result) \<and>
         (\<forall>i<length (objects result).
            identifiedObjects (completeJobs br videoFile order st') ! i =
              (initialObject (objects result ! i))
                \<lparr>imageUrl := if (i, objects result ! i) \<in> set order
                             then settledImage br videoFile (objects result ! i) else None\<rparr>)"
proof -
  from handleIdentifyClick_found [OF assms(1-3)] assms(4)
  have st': "st' = \<lparr>identifiedObjects = map initialObject (objects result),
             rawJsonOutput = Some (rawJson result), isLoading = False, error = None\<rparr>"
    and jobs: "jobs = zip [0..<length (objects result)] (objects result)"
    by simp_all
  have "identifiedObjects (completeJobs br videoFile order st') =
          map (\<lambda>i. (initialObject (objects result ! i))
                  \<lparr>imageUrl := if (i, objects result ! i) \<in> set order
                               then settledImage br videoFile (objects result ! i) else None\<rparr>)
               [0..<length (objects result)]"
    using fold_own_jobs [of order "objects result"] assms(5)
    unfolding jobs by (simp add: completeJobs_fold st')
  then show ?thesis by (simp add: completeJobs_fold st')
qed

lemma frameJob_samples:
  "frameJob sample_browser good_video mock_glock = Resolved (ascii ''data:image/jpeg;base64,default1w'')"
  "frameJob sample_browser damaged_video mock_glock = Resolved (ascii ''data:image/jpeg;base64,default1w'')"
  "frameJob sample_browser good_video second_glock = Resolved (ascii ''data:image/jpeg;base64,default1k'')"
  "frameJob sample_browser damaged_video mock_late =
     Rejected (ErrorObject (ascii ''Video error during frame extraction: decode error''))"
  "frameJob sample_browser good_video mock_late = Resolved (ascii ''data:image/jpeg;base64,default1k'')"
  by (simp_all add: frameJob_def extractFrameFromVideo_def drawBoundingBoxOnImage_def
      sample_browser_def seekTime_def onSeeked_def onError_def sample_toDataURL_def
      good_video_def damaged_video_def mock_glock_def second_glock_def mock_late_def
      annotated_eq pixelBox_def num_def light_frame_def dark_frame_def ascii_def)

theorem frame_failure_is_isolated_witness:
  "trim (ascii ''glock'') \<noteq> [] \<and>
   fst (identifyObjectsInVideo (answering two_json)) =
     Inr \<lparr>objects = [mock_glock, mock_late], rawJson = two_json\<rparr> \<and>
   snd two_run = [(0, mock_glock), (1, mock_late)] \<and>
   frameJob sample_browser damaged_video mock_late =
     Rejected (ErrorObject (ascii ''Video error during frame extraction: decode error'')) \<and>
   error (completeJobs sample_browser damaged_video [(1, mock_late), (0, mock_glock)] (fst two_run)) = None \<and>
   identifiedObjects
     (completeJobs sample_browser damaged_video [(1, mock_late), (0, mock_glock)] (fst two_run)) =
     [(initialObject mock_glock)\<lparr>imageUrl := Some (ascii ''data:image/jpeg;base64,default1w'')\<rparr>,
      initialObject mock_late]"
proof -
  let ?res = "\<lparr>objects = [mock_glock, mock_late], rawJson = two_json\<rparr>"
  let ?order = "[(1, mock_late), (0, mock_glock)]"
  let ?final = "completeJobs sample_browser damaged_video ?order (fst two_run)"
  have q: "trim (ascii ''glock'') \<noteq> []" by (rule trim_samples)
  have r: "fst (identifyObjectsInVideo (answering two_json)) = Inr ?res"
    by (rule identify_samples)
  have n: "objects ?res \<noteq> []" by simp
  have h: "handleIdentifyClick (answering two_json) (Some damaged_video) (ascii ''glock'') idle_state =
             (fst two_run, snd two_run)"
    by (simp add: two_run_def)
  have j: "snd two_run = [(0, mock_glock), (1, mock_late)]"
    unfolding two_run_def handleIdentifyClick_found [OF q r n]
    by (simp add: upt_rec)
  have o: "set ?order \<subseteq> set (snd two_run)"
    unfolding j by simp
  have s: "settledImage sample_browser damaged_video mock_glock =
             Some (ascii ''data:image/jpeg;base64,default1w'')"
     "settledImage sample_browser damaged_video mock_late = None"
    by (simp_all add: settledImage_def frameJob_samples)
  from frame_failure_is_isolated [OF q r n h o, of sample_browser]
  have e: "error ?final = None" and l: "length (identifiedObjects ?final) = 2"
    and a: "\<forall>i<2. identifiedObjects ?final ! i =
              (initialObject ([mock_glock, mock_late] ! i))
                \<lparr>imageUrl := if (i, [mock_glock, mock_late] ! i) \<in> set ?order
                             then settledImage sample_browser damaged_video ([mock_glock, mock_late] ! i)
                             else None\<rparr>"
    by simp_all
  from a have a0: "identifiedObjects ?final ! 0 =
      (initialObject mock_glock)\<lparr>imageUrl := Some (ascii ''data:image/jpeg;base64,default1w'')\<rparr>"
    using s by simp
  from a have "identifiedObjects ?final ! 1 = (initialObject mock_late)\<lparr>imageUrl := None\<rparr>"
    using s by simp
  then have a1: "identifiedObjects ?final ! 1 = initialObject mock_late"
    by (simp add: initialObject_def)
  have "identifiedObjects ?final =
     [(initialObject mock_glock)\<lparr>imageUrl := Some (ascii ''data:image/jpeg;base64,default1w'')\<rparr>,
      initialObject mock_late]"
    using l a0 a1 by (intro nth_equalityI) (auto simp: less_Suc_eq numeral_2_eq_2)
  then show ?thesis using q r j e frameJob_samples(4) by simp
qed

text \<open>
  C3, as the code has it. Let frame jobs of an earlier run end, in any order, while the
  list is that of a later run. The list keeps its length; a slot keeps everything but
  perhaps its picture, and its picture changes only through a job with the slot's index
  whose object has the slot's name; if no job has the index and name of a slot, the
  state is left as it was.
\<close>

theorem stale_update_needs_index_and_name:
  assumes "k < length (identifiedObjects st)"
  shows "length (identifiedObjects (completeJobs br videoFile late st)) =
           length (identifiedObjects st) \<and>
         (\<exists>u. identifiedObjects (completeJobs br videoFile late st) ! k =
                 (identifiedObjects st ! k)\<lparr>imageUrl := u\<rparr> \<and>
              (u = imageUrl (identifiedObjects st ! k) \<or>
               (\<exists>obj fw. (k, obj) \<in> set late \<and>
                  VideoObject.name obj = IdentifiedObject.name (identifiedObjects st ! k) \<and>
                  frameJob br videoFile obj = Resolved fw \<and> u = Some fw))) \<and>
         ((\<forall>job \<in> set late.
             \<not> (fst job < length (identifiedObjects st) \<and>
                IdentifiedObject.name (identifiedObjects st ! fst job) = VideoObject.name (snd job))) \<longrightarrow>
          completeJobs br videoFile late st = st)"
  using fold_applyJob_slot [OF assms, of br videoFile late]
    fold_applyJob_dropped [of late "identifiedObjects st" br videoFile]
  by (simp add: completeJobs_fold fold_applyJob_length)

lemma runs_samples:
  "first_run = (\<lparr>identifiedObjects = [initialObject mock_glock], rawJsonOutput = Some mock_json,
                 isLoading = False, error = None\<rparr>, [(0, mock_glock)])"
  "second_run = (\<lparr>identifiedObjects = [initialObject second_glock], rawJsonOutput = Some second_json,
                  isLoading = False, error = None\<rparr>, [(0, second_glock)])"
proof -
  have q: "trim (ascii ''glock'') \<noteq> []" by (rule trim_samples)
  show "first_run = (\<lparr>identifiedObjects = [initialObject mock_glock], rawJsonOutput = Some mock_json,
                 isLoading = False, error = None\<rparr>, [(0, mock_glock)])"
    unfolding first_run_def
    by (subst handleIdentifyClick_found [OF q identify_samples(1)]) simp_all
  show "second_run = (\<lparr>identifiedObjects = [initialObject second_glock], rawJsonOutput = Some second_json,
                  isLoading = False, error = None\<rparr>, [(0, second_glock)])"
    unfolding second_run_def
    by (subst handleIdentifyClick_found [OF q identify_samples(3)]) simp_all
qed

text \<open>
  C3 as stated fails. Two runs on the same clip find an object of the same name at index
  0, at different times. The first run's job ends after the second run has set its list:
  the slot of the second run's object takes the first run's picture.
\<close>

theorem stale_update_overwrites_counterexample:
  "snd first_run = [(0, mock_glock)] \<and>
   identifiedObjects (fst second_run) = [initialObject second_glock] \<and>
   imageUrl (initialObject second_glock) = None \<and>
   identifiedObjects (completeJob sample_browser good_video (0, mock_glock) (fst second_run)) =
     [(initialObject second_glock)\<lparr>imageUrl := Some (ascii ''data:image/jpeg;base64,default1w'')\<rparr>] \<and>
   frameJob sample_browser good_video mock_glock =
     Resolved (ascii ''data:image/jpeg;base64,default1w'') \<and>
   frameJob sample_browser good_video second_glock =
     Resolved (ascii ''data:image/jpeg;base64,default1k'')"
proof -
  have n: "IdentifiedObject.name (initialObject second_glock) = VideoObject.name mock_glock"
    by (simp add: initialObject_def second_glock_def mock_glock_def)
  have "identifiedObjects (completeJob sample_browser good_video (0, mock_glock) (fst second_run)) =
     [(initialObject second_glock)\<lparr>imageUrl := Some (ascii ''data:image/jpeg;base64,default1w'')\<rparr>]"
    using n by (simp add: runs_samples completeJob_def frameJob_samples updater_def)
  then show ?thesis
    by (simp add: runs_samples frameJob_samples) (simp add: initialObject_def)
qed

theorem stale_update_needs_index_and_name_witness:
  "(0::nat) < length (identifiedObjects (fst second_run)) \<and>
   IdentifiedObject.name (identifiedObjects (fst second_run) ! 0) = VideoObject.name second_glock \<and>
   VideoObject.name mock_late \<noteq> VideoObject.name second_glock \<and>
   frameJob sample_browser good_video mock_late =
     Resolved (ascii ''data:image/jpeg;base64,default1k'') \<and>
   frameJob sample_browser good_video mock_glock =
     Resolved (ascii ''data:image/jpeg;base64,default1w'') \<and>
   completeJobs sample_browser good_video [(0, mock_late), (1, mock_glock)] (fst second_run) =
     fst second_run"
proof -
  let ?late = "[(0, mock_late), (1::nat, mock_glock)]"
  have k: "(0::nat) < length (identifiedObjects (fst second_run))"
    by (simp add: runs_samples)
  have nm: "IdentifiedObject.name (identifiedObjects (fst second_run) ! 0) = VideoObject.name second_glock"
    by (simp add: runs_samples initialObject_def)
  have d: "VideoObject.name mock_late \<noteq> VideoObject.name second_glock"
    by (simp add: mock_late_def second_glock_def ascii_def)
  have a: "\<forall>job \<in> set ?late.
             \<not> (fst job < length (identifiedObjects (fst second_run)) \<and>
                IdentifiedObject.name (identifiedObjects (fst second_run) ! fst job) =
                  VideoObject.name (snd job))"
    using nm d by (simp add: runs_samples)
  from stale_update_needs_index_and_name [OF k, of sample_browser good_video ?late] a
  have "completeJobs sample_browser good_video ?late (fst second_run) = fst second_run"
    by blast
  then show ?thesis using k nm d frameJob_samples(1,5) by simp
qed

end
